theory Spec2Isabelle
  imports Complex_Main "HOL-Library.Word"
begin

section \<open>Strings of the TypeScript sources\<close>

text \<open>
  A JavaScript string is a sequence of 16-bit code units. The literals of the sources
  that are not ASCII are written by their code units.
\<close>

type_synonym code_unit = "16 word"
type_synonym jsstring = "code_unit list"

definition ascii :: "string \<Rightarrow> jsstring" where
  "ascii s = map (\<lambda>c. of_nat (of_char c)) s"

text \<open>
  The code units that \<^verbatim>\<open>String.prototype.trim\<close> removes: WhiteSpace (TAB, VT, FF, the
  space separators, ZWNBSP) and LineTerminator (LF, CR, LS, PS).
\<close>

definition is_whitespace :: "code_unit \<Rightarrow> bool" where
  "is_whitespace c \<longleftrightarrow>
     c \<in> {0x9, 0xA, 0xB, 0xC, 0xD, 0x20, 0xA0, 0x1680, 0x2028, 0x2029, 0x202F, 0x205F,
          0x3000, 0xFEFF}
     \<or> (0x2000 \<le> c \<and> c \<le> 0x200A)"

definition trim :: "jsstring \<Rightarrow> jsstring" where
  "trim s = rev (dropWhile is_whitespace (rev (dropWhile is_whitespace s)))"

text \<open>\<^verbatim>\<open>a || b\<close> on an optional string: \<^verbatim>\<open>undefined\<close> and the empty string are falsy.\<close>

fun or_else :: "jsstring option \<Rightarrow> jsstring \<Rightarrow> jsstring" where
  "or_else None d = d"
| "or_else (Some s) d = (if s = [] then d else s)"

section \<open>The types of the client (types/index.ts)\<close>

datatype api_status = StatusSuccess | StatusError

record 'a ApiResponse =
  api_status :: api_status
  api_data :: "'a option"
  api_message :: "jsstring option"

record ProductRecommendation =
  rank :: int
  product_name :: jsstring
  description :: jsstring
  source_link :: jsstring
  price :: "jsstring option"
  rating :: "rat option"
  image_url :: "jsstring option"
  pros :: "jsstring list option"
  cons :: "jsstring list option"
  best_for :: "jsstring option"

record SearchRequest =
  keyword :: jsstring

record SearchResponse =
  products :: "ProductRecommendation list"
  total_results :: nat
  search_time :: rat
  cached :: bool




record Configuration =
  cfg_id :: int
  cfg_key :: jsstring
  cfg_value :: jsstring
  cfg_group :: jsstring
  updated_at :: jsstring

record setting =
  setting_key :: jsstring
  setting_value :: jsstring

record ConfigurationUpdate =
  settings :: "setting list"

record SearchResult =
  title :: jsstring
  link :: jsstring
  snippet :: jsstring
  position :: nat
  favicon :: "jsstring option"
  date :: "jsstring option"

section \<open>The API client (lib/api.ts)\<close>

text \<open>
  What \<^verbatim>\<open>this.client.post\<close> or \<^verbatim>\<open>this.client.get\<close> gives back: the promise resolves
  with the body of a 2xx response (axios's default \<^verbatim>\<open>validateStatus\<close>), or it rejects with
  an axios error, which has a message of its own and, when the server answered, the
  response's HTTP status and the \<^verbatim>\<open>message\<close> field of its body (the only field of it the
  client reads).
\<close>

record error_response =
  http_status :: nat
  data_message :: "jsstring option"

record axios_error =
  err_response :: "error_response option"
  err_message :: jsstring

datatype 'a axios_outcome = Resolved "'a ApiResponse" | Rejected axios_error

text \<open>A thrown \<^verbatim>\<open>Error\<close>: it carries its message and nothing else.\<close>

datatype js_error = Error jsstring

record ApiClient =
  token :: "jsstring option"

text \<open>
  The request interceptor: the \<^verbatim>\<open>Authorization\<close> header of the request that is sent,
  if any. \<^verbatim>\<open>if (this.token)\<close> is false for \<^verbatim>\<open>null\<close> and for the empty string.
\<close>

definition request_interceptor :: "ApiClient \<Rightarrow> jsstring option" where
  "request_interceptor c =
     (case token c of
        None \<Rightarrow> None
      | Some t \<Rightarrow> if t = [] then None else Some (ascii ''Bearer '' @ t))"

text \<open>The response interceptor: a resolved response passes; a rejection with status 401
  clears the token; every rejection is passed on.\<close>

fun response_interceptor :: "'a axios_outcome \<Rightarrow> ApiClient \<Rightarrow> ApiClient" where
  "response_interceptor (Resolved b) c = c"
| "response_interceptor (Rejected e) c =
     (case err_response e of
        None \<Rightarrow> c
      | Some r \<Rightarrow> if http_status r = 401 then c\<lparr>token := None\<rparr> else c)"

definition setToken :: "jsstring \<Rightarrow> ApiClient \<Rightarrow> ApiClient" where
  "setToken t c = c\<lparr>token := Some t\<rparr>"

definition clearToken :: "ApiClient \<Rightarrow> ApiClient" where
  "clearToken c = c\<lparr>token := None\<rparr>"

text \<open>
  One request through the axios instance. \<open>net\<close> is the network and the server: it maps
  the \<^verbatim>\<open>Authorization\<close> header the request carries to the outcome of the call.
\<close>

definition send :: "(jsstring option \<Rightarrow> 'a axios_outcome) \<Rightarrow> ApiClient \<Rightarrow> 'a axios_outcome \<times> ApiClient" where
  "send net c = (let out = net (request_interceptor c) in (out, response_interceptor out c))"

text \<open>
  The message of the error an API method throws for a rejected call:
  \<^verbatim>\<open>error.response?.data?.message || error.message\<close> behind the method's prefix.
\<close>

definition axios_message :: "axios_error \<Rightarrow> jsstring" where
  "axios_message e =
     or_else (case err_response e of None \<Rightarrow> None | Some r \<Rightarrow> data_message r) (err_message e)"

definition msg_get_failed :: jsstring where
  "msg_get_failed = [0x83B7, 0x53D6, 0x63A8, 0x8350, 0x5931, 0x8D25]"

definition msg_network_error :: jsstring where
  "msg_network_error = [0x7F51, 0x7EDC, 0x9519, 0x8BEF, 0x3A, 0x20]"

text \<open>
  \<^verbatim>\<open>getTopProducts\<close>: the data of a resolved reply whose status is \<^verbatim>\<open>'success'\<close> and which
  has data (an object, so truthy when present); otherwise an \<^verbatim>\<open>Error\<close> with the reply's
  message or the fixed text. That error is thrown inside the \<^verbatim>\<open>try\<close> and is not an axios
  error, so the \<^verbatim>\<open>catch\<close> throws it again as it is; an axios error becomes an \<^verbatim>\<open>Error\<close>
  with the prefixed message.
\<close>

definition getTopProducts ::
  "(SearchRequest \<Rightarrow> jsstring option \<Rightarrow> SearchResponse axios_outcome) \<Rightarrow> ApiClient \<Rightarrow> SearchRequest
     \<Rightarrow> (js_error + SearchResponse) \<times> ApiClient" where
  "getTopProducts net c request =
     (case send (net request) c of
        (Resolved b, c') \<Rightarrow>
          (case api_data b of
             Some d \<Rightarrow>
               if api_status b = StatusSuccess then (Inr d, c')
               else (Inl (Error (or_else (api_message b) msg_get_failed)), c')
           | None \<Rightarrow> (Inl (Error (or_else (api_message b) msg_get_failed)), c'))
      | (Rejected e, c') \<Rightarrow> (Inl (Error (msg_network_error @ axios_message e)), c'))"

section \<open>The search form (components/search/search-form.tsx)\<close>

datatype toast = ToastError jsstring | ToastSuccess jsstring

text \<open>
  The state the form's handlers read and write: the component's own state
  (\<open>form_keyword\<close>, \<open>isSubmitting\<close>), the parent's state behind the callbacks
  (\<open>loading\<close> for \<^verbatim>\<open>onLoadingChange\<close>, \<open>results\<close> for \<^verbatim>\<open>onSearch\<close>: the results
  displayed), the toasts shown, the requests handed to \<^verbatim>\<open>api.getTopProducts\<close>, and the
  API client.
\<close>

record search_form =
  form_keyword :: jsstring
  isSubmitting :: bool
  loading :: bool
  results :: "SearchResponse option"
  toasts :: "toast list"
  api_calls :: "SearchRequest list"
  client :: ApiClient

definition msg_enter_keyword :: jsstring where
  "msg_enter_keyword = [0x8BF7, 0x8F93, 0x5165, 0x5546, 0x54C1, 0x5173, 0x952E, 0x8BCD]"

definition msg_from_cache :: jsstring where
  "msg_from_cache =
     [0x5DF2, 0x4ECE, 0x7F13, 0x5B58, 0x4E2D, 0x83B7, 0x53D6, 0x63A8, 0x8350, 0x7ED3, 0x679C]"

definition msg_found_fresh :: jsstring where
  "msg_found_fresh =
     [0x4E3A, 0x60A8, 0x627E, 0x5230, 0x4E86, 0x6700, 0x65B0, 0x7684, 0x63A8, 0x8350, 0x5546,
      0x54C1, 0xFF01]"

text \<open>
  \<^verbatim>\<open>handleSubmit\<close>. \<^verbatim>\<open>e.preventDefault()\<close> touches none of this state. Every value
  \<open>getTopProducts\<close> throws is an \<^verbatim>\<open>Error\<close>, so the toast of the \<^verbatim>\<open>catch\<close> shows its message.
\<close>

definition handleSubmit ::
  "(SearchRequest \<Rightarrow> jsstring option \<Rightarrow> SearchResponse axios_outcome) \<Rightarrow> search_form \<Rightarrow> search_form" where
  "handleSubmit net w =
     (if trim (form_keyword w) = [] then w\<lparr>toasts := toasts w @ [ToastError msg_enter_keyword]\<rparr>
      else
        let request = \<lparr>keyword = trim (form_keyword w)\<rparr>;
            w1 = w\<lparr>isSubmitting := True, loading := True, api_calls := api_calls w @ [request]\<rparr>;
            (r, c') = getTopProducts net (client w1) request;
            w2 = w1\<lparr>client := c'\<rparr>;
            w3 = (case r of
                    Inr res \<Rightarrow>
                      w2\<lparr>results := Some res,
                         toasts := toasts w2 @
                           [ToastSuccess (if cached res then msg_from_cache else msg_found_fresh)]\<rparr>
                  | Inl (Error m) \<Rightarrow> w2\<lparr>toasts := toasts w2 @ [ToastError m]\<rparr>)
        in w3\<lparr>isSubmitting := False, loading := False\<rparr>)"


section \<open>The other methods of the API client (lib/api.ts)\<close>

record AdminLoginRequest =
  username :: jsstring
  password :: jsstring

record AdminLoginResponse =
  login_token :: jsstring
  expires_in :: nat

definition msg_login_failed :: jsstring where
  "msg_login_failed = [0x767B, 0x5F55, 0x5931, 0x8D25]"

definition msg_get_config_failed :: jsstring where
  "msg_get_config_failed = [0x83B7, 0x53D6, 0x914D, 0x7F6E, 0x5931, 0x8D25]"

definition msg_update_config_failed :: jsstring where
  "msg_update_config_failed = [0x66F4, 0x65B0, 0x914D, 0x7F6E, 0x5931, 0x8D25]"

definition adminLogin ::
  "(AdminLoginRequest \<Rightarrow> jsstring option \<Rightarrow> AdminLoginResponse axios_outcome) \<Rightarrow> ApiClient
     \<Rightarrow> AdminLoginRequest \<Rightarrow> (js_error + AdminLoginResponse) \<times> ApiClient" where
  "adminLogin net c request =
     (case send (net request) c of
        (Resolved b, c') \<Rightarrow>
          (case api_data b of
             Some d \<Rightarrow>
               if api_status b = StatusSuccess then (Inr d, setToken (login_token d) c')
               else (Inl (Error (or_else (api_message b) msg_login_failed)), c')
           | None \<Rightarrow> (Inl (Error (or_else (api_message b) msg_login_failed)), c'))
      | (Rejected e, c') \<Rightarrow>
          (Inl (Error (msg_login_failed @ [0x3A, 0x20] @ axios_message e)), c'))"

definition getConfigurations ::
  "(jsstring option \<Rightarrow> Configuration list axios_outcome) \<Rightarrow> ApiClient
     \<Rightarrow> (js_error + Configuration list) \<times> ApiClient" where
  "getConfigurations net c =
     (case send net c of
        (Resolved b, c') \<Rightarrow>
          (case api_data b of
             Some d \<Rightarrow>
               if api_status b = StatusSuccess then (Inr d, c')
               else (Inl (Error (or_else (api_message b) msg_get_config_failed)), c')
           | None \<Rightarrow> (Inl (Error (or_else (api_message b) msg_get_config_failed)), c'))
      | (Rejected e, c') \<Rightarrow>
          (Inl (Error (msg_get_config_failed @ [0x3A, 0x20] @ axios_message e)), c'))"

definition updateConfigurations ::
  "(ConfigurationUpdate \<Rightarrow> jsstring option \<Rightarrow> unit axios_outcome) \<Rightarrow> ApiClient
     \<Rightarrow> ConfigurationUpdate \<Rightarrow> (js_error + unit) \<times> ApiClient" where
  "updateConfigurations net c request =
     (case send (net request) c of
        (Resolved b, c') \<Rightarrow>
          if api_status b \<noteq> StatusSuccess
          then (Inl (Error (or_else (api_message b) msg_update_config_failed)), c')
          else (Inr (), c')
      | (Rejected e, c') \<Rightarrow>
          (Inl (Error (msg_update_config_failed @ [0x3A, 0x20] @ axios_message e)), c'))"

definition testConnection :: "(jsstring option \<Rightarrow> unit axios_outcome) \<Rightarrow> ApiClient \<Rightarrow> bool \<times> ApiClient" where
  "testConnection net c =
     (case send net c of (Resolved b, c') \<Rightarrow> (True, c') | (Rejected e, c') \<Rightarrow> (False, c'))"

definition logout :: "ApiClient \<Rightarrow> ApiClient" where
  "logout c = clearToken c"

text \<open>
  A use of the client, what it sends and whether it calls \<^verbatim>\<open>setToken\<close>: the calls of the
  exported \<^verbatim>\<open>api\<close> object. Each method that talks to the server sends one request, with
  the header the request interceptor gives it; \<^verbatim>\<open>adminLogin\<close> calls \<^verbatim>\<open>setToken\<close> when
  the login succeeds.
\<close>

datatype client_op =
    OpGetTopProducts "SearchRequest \<Rightarrow> jsstring option \<Rightarrow> SearchResponse axios_outcome" SearchRequest
  | OpAdminLogin "AdminLoginRequest \<Rightarrow> jsstring option \<Rightarrow> AdminLoginResponse axios_outcome" AdminLoginRequest
  | OpGetConfigurations "jsstring option \<Rightarrow> Configuration list axios_outcome"
  | OpUpdateConfigurations "ConfigurationUpdate \<Rightarrow> jsstring option \<Rightarrow> unit axios_outcome" ConfigurationUpdate
  | OpTestConnection "jsstring option \<Rightarrow> unit axios_outcome"
  | OpSetToken jsstring
  | OpLogout

fun perform :: "client_op \<Rightarrow> ApiClient \<Rightarrow> ApiClient" where
  "perform (OpGetTopProducts net request) c = snd (getTopProducts net c request)"
| "perform (OpAdminLogin net request) c = snd (adminLogin net c request)"
| "perform (OpGetConfigurations net) c = snd (getConfigurations net c)"
| "perform (OpUpdateConfigurations net request) c = snd (updateConfigurations net c request)"
| "perform (OpTestConnection net) c = snd (testConnection net c)"
| "perform (OpSetToken t) c = setToken t c"
| "perform OpLogout c = logout c"

text \<open>The \<^verbatim>\<open>Authorization\<close> headers of the requests a use of the client sends.\<close>

fun sent_headers :: "client_op \<Rightarrow> ApiClient \<Rightarrow> jsstring option list" where
  "sent_headers (OpSetToken t) c = []"
| "sent_headers OpLogout c = []"
| "sent_headers other c = [request_interceptor c]"

text \<open>Whether a use of the client calls \<^verbatim>\<open>setToken\<close>.\<close>

fun calls_setToken :: "client_op \<Rightarrow> ApiClient \<Rightarrow> bool" where
  "calls_setToken (OpSetToken t) c = True"
| "calls_setToken (OpAdminLogin net request) c =
     (case fst (adminLogin net c request) of Inr d \<Rightarrow> True | Inl e \<Rightarrow> False)"
| "calls_setToken other c = False"

text \<open>A sequence of uses: the headers sent, whether \<^verbatim>\<open>setToken\<close> was called, the client
  at the end.\<close>

fun perform_all :: "client_op list \<Rightarrow> ApiClient \<Rightarrow> jsstring option list \<times> bool \<times> ApiClient" where
  "perform_all [] c = ([], False, c)"
| "perform_all (x # xs) c =
     (case perform_all xs (perform x c) of
        (hs, called, c') \<Rightarrow> (sent_headers x c @ hs, calls_setToken x c \<or> called, c'))"

section \<open>Formatting a price (lib/utils.ts)\<close>

text \<open>
  A JavaScript number: not a number, an infinity, or a finite double, which is the
  rational it denotes (\<open>-0\<close> and \<open>0\<close> are both \<open>Finite 0\<close>: \<^verbatim>\<open>!price\<close> and \<^verbatim>\<open>toFixed\<close> do
  not tell them apart).
\<close>

datatype jsnumber = NaN | PosInfinity | NegInfinity | Finite rat

text \<open>
  What the language does with doubles and this model does not compute: rounding a
  decimal to the nearest double (inside \<^verbatim>\<open>parseFloat\<close>), and \<^verbatim>\<open>Number::toString\<close> of a
  finite number of magnitude \<open>10^21\<close> or more (inside \<^verbatim>\<open>toFixed\<close>).
\<close>

record js_numbers =
  round_to_double :: "rat \<Rightarrow> jsnumber"
  number_to_string :: "rat \<Rightarrow> jsstring"

datatype price_arg = PriceString jsstring | PriceNumber jsnumber

definition is_digit :: "code_unit \<Rightarrow> bool" where
  "is_digit c \<longleftrightarrow> 0x30 \<le> c \<and> c \<le> 0x39"

definition is_digit_or_comma :: "code_unit \<Rightarrow> bool" where
  "is_digit_or_comma c \<longleftrightarrow> is_digit c \<or> c = 0x2C"

fun nat_digits :: "nat \<Rightarrow> jsstring" where
  "nat_digits n = (if n < 10 then [of_nat (48 + n)] else nat_digits (n div 10) @ [of_nat (48 + n mod 10)])"

declare nat_digits.simps [simp del]

text \<open>
  \<^verbatim>\<open>x.toFixed(2)\<close>: a number that is not finite gives its name; otherwise the sign, and,
  below \<open>10^21\<close>, the integer \<open>n\<close> nearest to \<open>100 * x\<close> (the larger of two), written with
  at least three digits and a point before the last two.
\<close>

definition toFixed2 :: "js_numbers \<Rightarrow> jsnumber \<Rightarrow> jsstring" where
  "toFixed2 ops x =
     (case x of
        NaN \<Rightarrow> ascii ''NaN''
      | PosInfinity \<Rightarrow> ascii ''Infinity''
      | NegInfinity \<Rightarrow> ascii ''-Infinity''
      | Finite q \<Rightarrow>
          let s = (if q < 0 then ascii ''-'' else []);
              a = \<bar>q\<bar>
          in if 10 ^ 21 \<le> a then s @ number_to_string ops a
             else
               let n = nat \<lfloor>a * 100 + 1 / 2\<rfloor>;
                   m = nat_digits n;
                   m' = (if length m \<le> 2 then replicate (3 - length m) 0x30 @ m else m);
                   k = length m'
               in s @ take (k - 2) m' @ [0x2E] @ drop (k - 2) m')"

text \<open>
  \<^verbatim>\<open>price.match(/[\d,]+\.?\d*/)\<close>: the leftmost match, or none. The match starts at the
  first digit or comma; each part is greedy and the parts after the first may be empty,
  so it is the longest run of digits and commas, a point if one follows, and the digits
  after that.
\<close>

definition price_match :: "jsstring \<Rightarrow> jsstring option" where
  "price_match s =
     (let rest = dropWhile (\<lambda>c. \<not> is_digit_or_comma c) s
      in if rest = [] then None
         else
           let run = takeWhile is_digit_or_comma rest;
               r1 = dropWhile is_digit_or_comma rest;
               dot = (case r1 of [] \<Rightarrow> [] | c # cs \<Rightarrow> if c = 0x2E then [c] else []);
               r2 = drop (length dot) r1
           in Some (run @ dot @ takeWhile is_digit r2))"

definition digits_value :: "jsstring \<Rightarrow> nat" where
  "digits_value ds = foldl (\<lambda>a c. 10 * a + (unat c - 48)) 0 ds"

text \<open>
  \<^verbatim>\<open>parseFloat\<close> on the strings that reach it here, which have digits and at most one
  point and nothing else (no white space, sign, exponent or \<^verbatim>\<open>Infinity\<close>): the longest
  prefix that is a decimal literal, rounded to a double; \<^verbatim>\<open>NaN\<close> when that prefix has no
  digit.
\<close>

definition parseFloat :: "js_numbers \<Rightarrow> jsstring \<Rightarrow> jsnumber" where
  "parseFloat ops s =
     (let ip = takeWhile is_digit s;
          r = dropWhile is_digit s;
          fp = (case r of [] \<Rightarrow> [] | c # cs \<Rightarrow> if c = 0x2E then takeWhile is_digit cs else [])
      in if ip = [] \<and> fp = [] then NaN
         else round_to_double ops
                (of_nat (digits_value ip) + of_nat (digits_value fp) / 10 ^ length fp))"

definition msg_price_pending :: jsstring where
  "msg_price_pending = [0x4EF7, 0x683C, 0x5F85, 0x5B9A]"

text \<open>\<^verbatim>\<open>!price\<close>: true for \<^verbatim>\<open>undefined\<close>, the empty string, zero and \<^verbatim>\<open>NaN\<close>.\<close>

fun falsy_price :: "price_arg option \<Rightarrow> bool" where
  "falsy_price None = True"
| "falsy_price (Some (PriceString s)) = (s = [])"
| "falsy_price (Some (PriceNumber NaN)) = True"
| "falsy_price (Some (PriceNumber (Finite q))) = (q = 0)"
| "falsy_price (Some (PriceNumber x)) = False"

definition formatPrice :: "js_numbers \<Rightarrow> price_arg option \<Rightarrow> jsstring" where
  "formatPrice ops p =
     (if falsy_price p then msg_price_pending
      else
        case p of
          Some (PriceNumber x) \<Rightarrow> [0xA5] @ toFixed2 ops x
        | Some (PriceString s) \<Rightarrow>
            (case price_match s of
               Some m \<Rightarrow> [0xA5] @ toFixed2 ops (parseFloat ops (filter (\<lambda>c. c \<noteq> 0x2C) m))
             | None \<Rightarrow> s)
        | None \<Rightarrow> msg_price_pending)"


section \<open>The recommendation pipeline\<close>

text \<open>
  The pipeline (key derivation, the model extractor, the result cache, the orchestrator)
  runs in the backend, which is not among the sources: the client above is its caller
  and types/index.ts declares its data. Its definitions below follow the specification.
\<close>

subsection \<open>Key derivation\<close>

text \<open>Modelled from the spec: collapsing internal white space, part of the backend's key
  derivation, whose code is missing. Every run of white space becomes one space.\<close>

function collapse_whitespace :: "jsstring \<Rightarrow> jsstring" where
  "collapse_whitespace [] = []"
| "collapse_whitespace (c # cs) =
     (if is_whitespace c then 0x20 # collapse_whitespace (dropWhile is_whitespace cs)
      else c # collapse_whitespace cs)"
  by pat_completeness auto
termination
  by (relation "measure length") (auto simp: less_Suc_eq_le length_dropWhile_le)

text \<open>Modelled from the spec: the normalization of a keyword (trim, case-fold, collapse
  internal whitespace) in the backend's key derivation, whose code is missing. The case
  folding is the backend's: it is the parameter \<open>casefold\<close>, any function on strings.\<close>

definition normalize :: "(jsstring \<Rightarrow> jsstring) \<Rightarrow> jsstring \<Rightarrow> jsstring" where
  "normalize casefold k = collapse_whitespace (casefold (trim k))"

text \<open>Modelled from the spec: the cache key of a keyword, the hash of the normalized
  keyword; the backend's function is missing, and the hash \<open>h\<close> and the case folding
  \<open>casefold\<close> are parameters.\<close>

definition cache_key :: "(jsstring \<Rightarrow> 'k) \<Rightarrow> (jsstring \<Rightarrow> jsstring) \<Rightarrow> jsstring \<Rightarrow> 'k" where
  "cache_key h casefold k = h (normalize casefold k)"

subsection \<open>The model extractor\<close>

text \<open>Modelled from the spec: what the language-model provider's
  \<^verbatim>\<open>generateStructured\<close> gives back (a structured result, output that does not parse,
  quota exhaustion, a network error); the providers' code is missing.\<close>

datatype provider_reply =
    Structured "ProductRecommendation list"
  | Unparseable
  | QuotaExhausted
  | NetworkFailure

text \<open>Modelled from the spec: the reasons of \<^verbatim>\<open>ExtractionFailed\<close>, which are distinct for
  output that fails the validation, output that does not parse, quota exhaustion and
  network errors; the backend's error types are missing.\<close>

datatype extraction_reason = ValidationFailed | MalformedOutput | QuotaExceeded | NetworkError

text \<open>Modelled from the spec: the provider configuration of the extractor (the capability
  \<^verbatim>\<open>generateStructured\<close>, and the stricter instruction of the repair attempt); the
  backend's configuration code is missing.\<close>

record provider_config =
  generateStructured :: "jsstring \<Rightarrow> provider_reply"
  repair_instruction :: jsstring

text \<open>Modelled from the spec: the validation after generation, whose code is missing:
  (a) exactly three entries, (b) the ranks are the set {1,2,3}, (c) every source link is
  the link of a supplied result.\<close>

definition validate :: "SearchResult list \<Rightarrow> ProductRecommendation list \<Rightarrow> bool" where
  "validate rs ps \<longleftrightarrow>
     length ps = 3 \<and> set (map rank ps) = {1, 2, 3}
     \<and> list_all (\<lambda>p. source_link p \<in> set (map link rs)) ps"

text \<open>Modelled from the spec: the prompt, which embeds the keyword and the titles,
  snippets and links of the results in the template; the backend's prompt builder is
  missing.\<close>

definition build_prompt :: "jsstring \<Rightarrow> jsstring \<Rightarrow> SearchResult list \<Rightarrow> jsstring" where
  "build_prompt template kw rs =
     template @ [0xA] @ kw @ concat (map (\<lambda>r. [0xA] @ title r @ [0xA] @ snippet r @ [0xA] @ link r) rs)"

text \<open>Modelled from the spec: one generation and its validation. Output that fails the
  validation or does not parse may be repaired; quota and network errors may not.\<close>

datatype attempt = Accepted "ProductRecommendation list" | Repairable extraction_reason | Fatal extraction_reason

definition attempt_generation :: "provider_config \<Rightarrow> SearchResult list \<Rightarrow> jsstring \<Rightarrow> attempt" where
  "attempt_generation cfg rs prompt =
     (case generateStructured cfg prompt of
        Structured ps \<Rightarrow> if validate rs ps then Accepted ps else Repairable ValidationFailed
      | Unparseable \<Rightarrow> Repairable MalformedOutput
      | QuotaExhausted \<Rightarrow> Fatal QuotaExceeded
      | NetworkFailure \<Rightarrow> Fatal NetworkError)"

text \<open>Modelled from the spec: the extractor \<^verbatim>\<open>extract(keyword, results, promptTemplate,
  providerConfig)\<close>, whose code is missing: one generation, one repair attempt with the
  stricter instruction appended to the prompt, and \<^verbatim>\<open>ExtractionFailed\<close> with its reason
  after that.\<close>

definition extract_recommendations ::
  "jsstring \<Rightarrow> SearchResult list \<Rightarrow> jsstring \<Rightarrow> provider_config
     \<Rightarrow> extraction_reason + ProductRecommendation list" where
  "extract_recommendations kw rs template cfg =
     (let prompt = build_prompt template kw rs
      in case attempt_generation cfg rs prompt of
           Accepted ps \<Rightarrow> Inr ps
         | Fatal reason \<Rightarrow> Inl reason
         | Repairable first \<Rightarrow>
             (case attempt_generation cfg rs (prompt @ repair_instruction cfg) of
                Accepted ps \<Rightarrow> Inr ps
              | Fatal reason \<Rightarrow> Inl reason
              | Repairable reason \<Rightarrow> Inl reason))"

subsection \<open>The result cache and the orchestrator\<close>

text \<open>Modelled from the spec: the result cache, whose code is missing. An entry holds the
  response and the time it expires; \<^verbatim>\<open>get\<close> gives the response of an entry that has not
  expired, \<^verbatim>\<open>put\<close> stores a response for \<open>ttl\<close> seconds.\<close>

type_synonym 'k cache = "'k \<rightharpoonup> SearchResponse \<times> nat"

definition cache_get :: "'k cache \<Rightarrow> 'k \<Rightarrow> nat \<Rightarrow> SearchResponse option" where
  "cache_get c k now =
     (case c k of None \<Rightarrow> None | Some (v, expires_at) \<Rightarrow> if now < expires_at then Some v else None)"

definition cache_put :: "'k cache \<Rightarrow> 'k \<Rightarrow> SearchResponse \<Rightarrow> nat \<Rightarrow> nat \<Rightarrow> 'k cache" where
  "cache_put c k v now ttl = c(k \<mapsto> (v, now + ttl))"

text \<open>Modelled from the spec: the failures of the search client and the errors a request
  can end in (the part of the taxonomy that the sequential pipeline reaches); the
  backend's error types are missing.\<close>

datatype search_failure = Timeout | RateLimited | AuthFailed | ProviderError

datatype pipeline_error =
    InvalidKeyword
  | UpstreamSearchError search_failure
  | ExtractionFailed extraction_reason

text \<open>Modelled from the spec: what one computation of the orchestrator works with, none
  of whose code is among the sources: the search client, the prompt template, the
  provider, the query TTL and the longest keyword accepted, as the configuration gives
  them when the request runs.\<close>

record pipeline_env =
  search :: "jsstring \<Rightarrow> search_failure + SearchResult list"
  prompt_template :: jsstring
  provider :: provider_config
  query_ttl :: nat
  max_keyword_length :: nat

text \<open>Modelled from the spec: a keyword submission, with the time it arrives and the
  seconds its computation takes if it computes.\<close>

record submission =
  sub_keyword :: jsstring
  sub_time :: nat
  sub_elapsed :: rat

text \<open>Modelled from the spec: the orchestrator's state machine for one request, whose
  code is missing: an empty or oversized keyword is rejected first; a cache hit answers
  with the stored response, marked cached; a miss searches, extracts, builds the
  response and stores it; a failure of any step ends the request and stores nothing.
  The hash \<open>h\<close> and the case folding \<open>casefold\<close> of the key derivation are parameters.\<close>

definition handle_request ::
  "(jsstring \<Rightarrow> 'k) \<Rightarrow> (jsstring \<Rightarrow> jsstring) \<Rightarrow> pipeline_env \<Rightarrow> submission \<Rightarrow> 'k cache
     \<Rightarrow> (pipeline_error + SearchResponse) \<times> 'k cache" where
  "handle_request h casefold env s c =
     (if trim (sub_keyword s) = [] \<or> max_keyword_length env < length (sub_keyword s)
      then (Inl InvalidKeyword, c)
      else
        let k = cache_key h casefold (sub_keyword s)
        in case cache_get c k (sub_time s) of
             Some v \<Rightarrow> (Inr (v\<lparr>cached := True\<rparr>), c)
           | None \<Rightarrow>
               (case search env (sub_keyword s) of
                  Inl f \<Rightarrow> (Inl (UpstreamSearchError f), c)
                | Inr rs \<Rightarrow>
                    (case extract_recommendations (sub_keyword s) rs (prompt_template env) (provider env) of
                       Inl reason \<Rightarrow> (Inl (ExtractionFailed reason), c)
                     | Inr ps \<Rightarrow>
                         let v = \<lparr>products = ps, total_results = length rs,
                                  search_time = sub_elapsed s, cached = False\<rparr>
                         in (Inr v, cache_put c k v (sub_time s) (query_ttl env)))))"

text \<open>Modelled from the spec: requests served one after the other on the same cache;
  the answers in order, and the cache at the end.\<close>

fun serve ::
  "(jsstring \<Rightarrow> 'k) \<Rightarrow> (jsstring \<Rightarrow> jsstring) \<Rightarrow> (pipeline_env \<times> submission) list \<Rightarrow> 'k cache
     \<Rightarrow> (pipeline_error + SearchResponse) list \<times> 'k cache" where
  "serve h casefold [] c = ([], c)"
| "serve h casefold ((env, s) # rest) c =
     (case handle_request h casefold env s c of
        (answer, c1) \<Rightarrow>
          (case serve h casefold rest c1 of (answers, c2) \<Rightarrow> (answer # answers, c2)))"


subsection \<open>Predicates of the proofs\<close>

text \<open>Three products whose ranks are 1, 2 and 3, each once.\<close>

definition top3 :: "ProductRecommendation list \<Rightarrow> bool" where
  "top3 ps \<longleftrightarrow> length ps = 3 \<and> distinct (map rank ps) \<and> set (map rank ps) = {1, 2, 3}"

text \<open>The invariant of the cache: every stored response has such products.\<close>

definition cache_top3 :: "'k cache \<Rightarrow> bool" where
  "cache_top3 c \<longleftrightarrow> (\<forall>k v e. c k = Some (v, e) \<longrightarrow> top3 (products v))"

section \<open>A worked example\<close>

text \<open>
  Two search results and a provider whose first answer names a link that is not among
  them and whose repaired answer is valid; the keyword \<^verbatim>\<open>TV\<close> submitted at time 100 and
  the keyword \<^verbatim>\<open> tv \<close> submitted at time 200.
\<close>

definition example_results :: "SearchResult list" where
  "example_results =
     [\<lparr>title = [0x41], link = [0x75, 0x31], snippet = [], position = 1, favicon = None,
        date = None\<rparr>,
      \<lparr>title = [0x42], link = [0x75, 0x32], snippet = [], position = 2, favicon = None,
        date = None\<rparr>]"

definition example_product :: "int \<Rightarrow> jsstring \<Rightarrow> ProductRecommendation" where
  "example_product n l =
     \<lparr>rank = n, product_name = [0x50], description = [], source_link = l, price = None,
      rating = None, image_url = None, pros = None, cons = None, best_for = None\<rparr>"

definition example_products :: "ProductRecommendation list" where
  "example_products =
     [example_product 1 [0x75, 0x32], example_product 2 [0x75, 0x31],
      example_product 3 [0x75, 0x32]]"

definition example_keyword :: jsstring where
  "example_keyword = [0x54, 0x56]"

definition example_keyword_padded :: jsstring where
  "example_keyword_padded = [0x20, 0x74, 0x76, 0x20]"

definition example_provider :: provider_config where
  "example_provider =
     \<lparr>generateStructured =
        (\<lambda>prompt. if prompt = build_prompt [0x74] example_keyword example_results
                   then Structured [example_product 1 [0x75, 0x39], example_product 2 [0x75, 0x31],
                                    example_product 3 [0x75, 0x32]]
                   else Structured example_products),
      repair_instruction = [0x21]\<rparr>"

definition example_env :: pipeline_env where
  "example_env =
     \<lparr>search = (\<lambda>k. Inr example_results), prompt_template = [0x74],
      provider = example_provider, query_ttl = 21600, max_keyword_length = 100\<rparr>"

definition example_response :: SearchResponse where
  "example_response =
     \<lparr>products = example_products, total_results = 2, search_time = 3, cached = False\<rparr>"

definition example_submission :: submission where
  "example_submission = \<lparr>sub_keyword = example_keyword, sub_time = 100, sub_elapsed = 3\<rparr>"

definition example_resubmission :: submission where
  "example_resubmission =
     \<lparr>sub_keyword = example_keyword_padded, sub_time = 200, sub_elapsed = 1\<rparr>"



text \<open>
  A case folding for the example: the capital letters of the Latin alphabet (A to Z,
  and those of Latin-1), of the Cyrillic alphabet and of the fullwidth forms go to their
  small letters, which lie 32 code units above them.
\<close>

definition example_case_fold :: "code_unit \<Rightarrow> code_unit" where
  "example_case_fold c =
     (if (0x41 \<le> c \<and> c \<le> 0x5A) \<or> (0xC0 \<le> c \<and> c \<le> 0xDE \<and> c \<noteq> 0xD7)
         \<or> (0x410 \<le> c \<and> c \<le> 0x42F) \<or> (0xFF21 \<le> c \<and> c \<le> 0xFF3A)
      then c + 0x20 else c)"

section \<open>Properties of the search form and the API client\<close>

text \<open>
  C5: a submitted keyword whose trimmed form is empty is rejected before any external
  call: \<open>handleSubmit\<close> shows the error toast and returns, it hands no request to
  \<^verbatim>\<open>api.getTopProducts\<close> (the list of calls and the client are as before, and the
  network has no part in the outcome), and the displayed results, the submitting flag
  and the loading flag are unchanged.
\<close>

theorem handleSubmit_empty_keyword:
  assumes "trim (form_keyword w) = []"
  shows "api_calls (handleSubmit net w) = api_calls w
       \<and> results (handleSubmit net w) = results w
       \<and> client (handleSubmit net w) = client w
       \<and> isSubmitting (handleSubmit net w) = isSubmitting w
       \<and> loading (handleSubmit net w) = loading w
       \<and> toasts (handleSubmit net w) = toasts w @ [ToastError msg_enter_keyword]
       \<and> handleSubmit net w = handleSubmit net' w"
  using assms by (simp add: handleSubmit_def)

theorem handleSubmit_empty_keyword_witness:
  "api_calls (handleSubmit (\<lambda>r h. Rejected \<lparr>err_response = None, err_message = []\<rparr>)
      \<lparr>form_keyword = [0x20, 0x9, 0x3000], isSubmitting = False, loading = False,
        results = None, toasts = [], api_calls = [], client = \<lparr>token = None\<rparr>\<rparr>) = []
   \<and> results (handleSubmit (\<lambda>r h. Rejected \<lparr>err_response = None, err_message = []\<rparr>)
      \<lparr>form_keyword = [0x20, 0x9, 0x3000], isSubmitting = False, loading = False,
        results = None, toasts = [], api_calls = [], client = \<lparr>token = None\<rparr>\<rparr>) = None
   \<and> toasts (handleSubmit (\<lambda>r h. Rejected \<lparr>err_response = None, err_message = []\<rparr>)
      \<lparr>form_keyword = [0x20, 0x9, 0x3000], isSubmitting = False, loading = False,
        results = None, toasts = [], api_calls = [], client = \<lparr>token = None\<rparr>\<rparr>)
       = [ToastError msg_enter_keyword]"
  using handleSubmit_empty_keyword
    [of "\<lparr>form_keyword = [0x20, 0x9, 0x3000], isSubmitting = False, loading = False,
          results = None, toasts = [], api_calls = [], client = \<lparr>token = None\<rparr>\<rparr>"
        "\<lambda>r h. Rejected \<lparr>err_response = None, err_message = []\<rparr>"]
  by (simp add: trim_def is_whitespace_def)

text \<open>
  C6: \<open>getTopProducts\<close> returns the contained response exactly when the call resolved
  with a reply of status \<^verbatim>\<open>'success'\<close> that has a data payload. Every other reply makes it
  throw an \<^verbatim>\<open>Error\<close>, which carries a message and nothing else: the reply's message (or
  the fixed text when the reply has none) for a resolved call, and the fixed prefix
  followed by the message of the error response's body (or axios's own message when
  there is none) for a rejected call. The data payload of a reply is in no error.
\<close>

theorem getTopProducts_result:
  "(fst (getTopProducts net c rq) = Inr d \<longleftrightarrow>
      (\<exists>b. net rq (request_interceptor c) = Resolved b \<and> api_status b = StatusSuccess
           \<and> api_data b = Some d))
   \<and> (\<forall>b. net rq (request_interceptor c) = Resolved b
           \<and> \<not> (api_status b = StatusSuccess \<and> api_data b \<noteq> None)
        \<longrightarrow> fst (getTopProducts net c rq) = Inl (Error (or_else (api_message b) msg_get_failed)))
   \<and> (\<forall>e. net rq (request_interceptor c) = Rejected e
        \<longrightarrow> fst (getTopProducts net c rq) = Inl (Error (msg_network_error @ axios_message e)))"
  by (auto simp: getTopProducts_def send_def Let_def split: axios_outcome.splits option.splits)

theorem getTopProducts_result_witness:
  "fst (getTopProducts
          (\<lambda>r h. Resolved \<lparr>api_status = StatusSuccess, api_data = Some example_response,
                            api_message = None\<rparr>)
          \<lparr>token = None\<rparr> \<lparr>keyword = ascii ''tv''\<rparr>) = Inr example_response
   \<and> fst (getTopProducts
          (\<lambda>r h. Resolved \<lparr>api_status = StatusError, api_data = None,
                            api_message = Some (ascii ''quota'')\<rparr>)
          \<lparr>token = None\<rparr> \<lparr>keyword = ascii ''tv''\<rparr>) = Inl (Error (ascii ''quota''))
   \<and> fst (getTopProducts
          (\<lambda>r h. Rejected \<lparr>err_response = Some \<lparr>http_status = 500, data_message = None\<rparr>,
                            err_message = ascii ''Network Error''\<rparr>)
          \<lparr>token = None\<rparr> \<lparr>keyword = ascii ''tv''\<rparr>)
       = Inl (Error (msg_network_error @ ascii ''Network Error''))"
  using getTopProducts_result
      [of "\<lambda>r h. Resolved \<lparr>api_status = StatusSuccess, api_data = Some example_response,
                              api_message = None\<rparr>"
          "\<lparr>token = None\<rparr>" "\<lparr>keyword = ascii ''tv''\<rparr>" example_response]
    getTopProducts_result
      [of "\<lambda>r h. Resolved \<lparr>api_status = StatusError, api_data = None,
                              api_message = Some (ascii ''quota'')\<rparr>"
          "\<lparr>token = None\<rparr>" "\<lparr>keyword = ascii ''tv''\<rparr>"]
    getTopProducts_result
      [of "\<lambda>r h. Rejected \<lparr>err_response = Some \<lparr>http_status = 500, data_message = None\<rparr>,
                              err_message = ascii ''Network Error''\<rparr>"
          "\<lparr>token = None\<rparr>" "\<lparr>keyword = ascii ''tv''\<rparr>"]
  by (simp add: axios_message_def ascii_def)

lemma send_keeps_no_token: "token c = None \<Longrightarrow> token (snd (send net c)) = None"
  by (cases "net (request_interceptor c)") (simp_all add: send_def Let_def split: option.splits)

lemma perform_keeps_no_token:
  assumes "token c = None" "\<not> calls_setToken x c"
  shows "token (perform x c) = None"
proof (cases x)
  case (OpGetTopProducts net rq)
  then show ?thesis using assms send_keeps_no_token [of c "net rq"]
    by (auto simp: getTopProducts_def split: prod.splits axios_outcome.splits option.splits)
next
  case (OpAdminLogin net rq)
  then show ?thesis using assms send_keeps_no_token [of c "net rq"]
    by (auto simp: adminLogin_def split: prod.splits axios_outcome.splits option.splits if_splits)
next
  case (OpGetConfigurations net)
  then show ?thesis using assms send_keeps_no_token [of c net]
    by (auto simp: getConfigurations_def split: prod.splits axios_outcome.splits option.splits)
next
  case (OpUpdateConfigurations net rq)
  then show ?thesis using assms send_keeps_no_token [of c "net rq"]
    by (auto simp: updateConfigurations_def split: prod.splits axios_outcome.splits option.splits)
next
  case (OpTestConnection net)
  then show ?thesis using assms send_keeps_no_token [of c net]
    by (auto simp: testConnection_def split: prod.splits axios_outcome.splits option.splits)
next
  case (OpSetToken t)
  then show ?thesis using assms by simp
next
  case OpLogout
  then show ?thesis by (simp add: logout_def clearToken_def)
qed

lemma sent_headers_no_token: "token c = None \<Longrightarrow> list_all (\<lambda>h. h = None) (sent_headers x c)"
  by (cases x) (simp_all add: request_interceptor_def)

lemma perform_all_no_token:
  "token c = None \<Longrightarrow> perform_all xs c = (hs, False, c') \<Longrightarrow>
     list_all (\<lambda>h. h = None) hs \<and> token c' = None"
proof (induction xs arbitrary: c hs)
  case Nil
  then show ?case by simp
next
  case (Cons x xs)
  obtain hs1 called1 c1 where r: "perform_all xs (perform x c) = (hs1, called1, c1)"
    by (cases "perform_all xs (perform x c)") auto
  with Cons.prems have e: "hs = sent_headers x c @ hs1" "\<not> calls_setToken x c" "\<not> called1" "c' = c1"
    by auto
  then have t: "token (perform x c) = None"
    using Cons.prems(1) perform_keeps_no_token by blast
  from r e have "perform_all xs (perform x c) = (hs1, False, c')"
    by simp
  from Cons.IH [OF t this] have "list_all (\<lambda>h. h = None) hs1 \<and> token c' = None" .
  with e show ?case
    using sent_headers_no_token [OF Cons.prems(1)] by simp
qed

text \<open>
  C10: when a response arrives with HTTP status 401, the stored token of the client is
  \<^verbatim>\<open>null\<close> afterwards; a response with another status, a rejection without a response
  and a resolved response leave the stored token as it was. Once the token is \<^verbatim>\<open>null\<close>,
  every request of any later uses of the client, as long as none of them calls
  \<^verbatim>\<open>setToken\<close>, is sent without an \<^verbatim>\<open>Authorization\<close> header, and the token is still
  \<^verbatim>\<open>null\<close> at the end.
\<close>

theorem unauthorized_clears_token:
  "(\<forall>e r. net (request_interceptor c) = Rejected e \<and> err_response e = Some r \<and> http_status r = 401
       \<longrightarrow> token (snd (send net c)) = None)
   \<and> (\<forall>e r. net (request_interceptor c) = Rejected e \<and> err_response e = Some r \<and> http_status r \<noteq> 401
       \<longrightarrow> token (snd (send net c)) = token c)
   \<and> (\<forall>e. net (request_interceptor c) = Rejected e \<and> err_response e = None
       \<longrightarrow> token (snd (send net c)) = token c)
   \<and> (\<forall>b. net (request_interceptor c) = Resolved b \<longrightarrow> token (snd (send net c)) = token c)
   \<and> (token (snd (send net c)) = None \<and> perform_all xs (snd (send net c)) = (hs, False, c')
       \<longrightarrow> list_all (\<lambda>h. h = None) hs \<and> token c' = None)"
  using perform_all_no_token [of "snd (send net c)" xs hs c']
  by (auto simp: send_def Let_def)

theorem unauthorized_clears_token_witness:
  "token (snd (send
      (\<lambda>h. Rejected \<lparr>err_response = Some \<lparr>http_status = 401, data_message = None\<rparr>,
                       err_message = []\<rparr> :: unit axios_outcome)
      \<lparr>token = Some (ascii ''abc'')\<rparr>)) = None
   \<and> perform_all
        [OpTestConnection (\<lambda>h. Resolved \<lparr>api_status = StatusSuccess, api_data = None,
                                           api_message = None\<rparr>), OpLogout]
        (snd (send
          (\<lambda>h. Rejected \<lparr>err_response = Some \<lparr>http_status = 401, data_message = None\<rparr>,
                           err_message = []\<rparr> :: unit axios_outcome)
          \<lparr>token = Some (ascii ''abc'')\<rparr>))
       = ([None], False, \<lparr>token = None\<rparr>)"
  using unauthorized_clears_token
    [of "\<lambda>h. Rejected \<lparr>err_response = Some \<lparr>http_status = 401, data_message = None\<rparr>,
                          err_message = []\<rparr> :: unit axios_outcome"
        "\<lparr>token = Some (ascii ''abc'')\<rparr>"
        "[OpTestConnection (\<lambda>h. Resolved \<lparr>api_status = StatusSuccess, api_data = None,
                                            api_message = None\<rparr>), OpLogout]"
        "[None]" "\<lparr>token = None\<rparr>"]
  by (simp add: send_def request_interceptor_def testConnection_def logout_def clearToken_def
      ascii_def)

section \<open>Properties of the price format\<close>

text \<open>
  Where the code does what is expected of it: the placeholder for an absent price, the
  empty string, zero and \<^verbatim>\<open>NaN\<close>; a string with neither digit nor comma unchanged; and
  for a positive number below \<open>10^21\<close> the yen sign, digits, a point and two digits,
  which write the integer nearest to a hundred times the number.
\<close>

lemma formatPrice_placeholder:
  "formatPrice ops None = msg_price_pending"
  "formatPrice ops (Some (PriceString [])) = msg_price_pending"
  "formatPrice ops (Some (PriceNumber (Finite 0))) = msg_price_pending"
  "formatPrice ops (Some (PriceNumber NaN)) = msg_price_pending"
  by (simp_all add: formatPrice_def)

lemma formatPrice_no_digit_no_comma:
  assumes "s \<noteq> []" "\<forall>c\<in>set s. \<not> is_digit_or_comma c"
  shows "formatPrice ops (Some (PriceString s)) = s"
proof -
  from assms(2) have "dropWhile (\<lambda>c. \<not> is_digit_or_comma c) s = []"
    by simp
  then have "price_match s = None"
    by (simp add: price_match_def)
  with assms(1) show ?thesis
    by (simp add: formatPrice_def)
qed

lemma unat_digit: "d < 10 \<Longrightarrow> unat (of_nat (48 + d) :: code_unit) = 48 + d"
  by (simp del: of_nat_add add: unat_of_nat)

lemma is_digit_of_nat: "d < 10 \<Longrightarrow> is_digit (of_nat (48 + d))"
  using unat_digit [of d] by (simp add: is_digit_def word_le_nat_alt)

lemma nat_digits_not_Nil: "nat_digits n \<noteq> []"
  by (subst nat_digits.simps) simp

lemma nat_digits_digits: "list_all is_digit (nat_digits n)"
proof (induction n rule: nat_digits.induct)
  case (1 n)
  show ?case
  proof (cases "n < 10")
    case True
    then show ?thesis
      by (subst nat_digits.simps) (simp del: of_nat_add add: is_digit_of_nat)
  next
    case False
    with "1" have "list_all is_digit (nat_digits (n div 10))" by simp
    moreover have "is_digit (of_nat (48 + n mod 10))"
      by (rule is_digit_of_nat) simp
    ultimately show ?thesis
      using False by (subst nat_digits.simps) (simp del: of_nat_add)
  qed
qed

lemma digits_value_snoc:
  "digits_value (ds @ [c]) = 10 * digits_value ds + (unat c - 48)"
  by (simp add: digits_value_def)

lemma digits_value_nat_digits: "digits_value (nat_digits n) = n"
proof (induction n rule: nat_digits.induct)
  case (1 n)
  show ?case
  proof (cases "n < 10")
    case True
    then show ?thesis
      by (subst nat_digits.simps) (simp del: of_nat_add add: digits_value_def unat_digit)
  next
    case False
    with "1" have "digits_value (nat_digits (n div 10)) = n div 10" by simp
    moreover have "unat (of_nat (48 + n mod 10) :: code_unit) - 48 = n mod 10"
      by (subst unat_digit) simp_all
    ultimately show ?thesis
      using False by (subst nat_digits.simps) (simp del: of_nat_add add: digits_value_snoc)
  qed
qed

lemma digits_value_zeros: "digits_value (replicate j 0x30 @ ds) = digits_value ds"
proof -
  have "foldl (\<lambda>a c. 10 * a + (unat c - 48)) 0 (replicate j (0x30 :: code_unit)) = 0"
    by (induction j) simp_all
  then show ?thesis
    by (simp add: digits_value_def)
qed

lemma toFixed2_finite:
  assumes "0 \<le> q" "q < 10 ^ 21"
  shows "\<exists>ip fp. toFixed2 ops (Finite q) = ip @ [0x2E] @ fp \<and> ip \<noteq> [] \<and> length fp = 2
           \<and> list_all is_digit ip \<and> list_all is_digit fp
           \<and> digits_value (ip @ fp) = nat \<lfloor>q * 100 + 1 / 2\<rfloor>"
proof -
  define n where "n = nat \<lfloor>q * 100 + 1 / 2\<rfloor>"
  define m where "m = (if length (nat_digits n) \<le> 2
      then replicate (3 - length (nat_digits n)) 0x30 @ nat_digits n else nat_digits n)"
  have len: "3 \<le> length m"
    by (auto simp: m_def)
  have dig: "list_all is_digit m"
    using nat_digits_digits [of n] by (auto simp: m_def is_digit_def list_all_iff)
  have val: "digits_value m = n"
    by (simp add: m_def digits_value_zeros digits_value_nat_digits)
  have out: "toFixed2 ops (Finite q) = take (length m - 2) m @ [0x2E] @ drop (length m - 2) m"
    using assms by (simp add: toFixed2_def Let_def n_def m_def abs_if)
  have "take (length m - 2) m \<noteq> []" "length (drop (length m - 2) m) = 2"
    using len by auto
  moreover have "list_all is_digit (take (length m - 2) m)" "list_all is_digit (drop (length m - 2) m)"
    using dig by (auto simp: list_all_iff dest: in_set_takeD in_set_dropD)
  moreover have "digits_value (take (length m - 2) m @ drop (length m - 2) m) = n"
    using val by simp
  ultimately show ?thesis
    unfolding out n_def by blast
qed

lemma formatPrice_positive_number:
  assumes "0 < q" "q < 10 ^ 21"
  shows "\<exists>ip fp. formatPrice ops (Some (PriceNumber (Finite q))) = [0xA5] @ ip @ [0x2E] @ fp
           \<and> ip \<noteq> [] \<and> length fp = 2 \<and> list_all is_digit ip \<and> list_all is_digit fp
           \<and> digits_value (ip @ fp) = nat \<lfloor>q * 100 + 1 / 2\<rfloor>"
proof -
  from assms have "formatPrice ops (Some (PriceNumber (Finite q))) = [0xA5] @ toFixed2 ops (Finite q)"
    by (simp add: formatPrice_def)
  with toFixed2_finite [of q ops] assms show ?thesis
    by auto
qed

text \<open>
  C9: for a string that has a comma before any digit, the pattern matches the comma
  alone, the number parsed from the match without its commas is \<^verbatim>\<open>NaN\<close>, and
  \<open>formatPrice\<close> returns the yen sign followed by \<^verbatim>\<open>NaN\<close>: the string is not returned
  unchanged, although it has no digit at all.
\<close>

theorem formatPrice_comma_without_digit:
  "formatPrice ops (Some (PriceString (ascii ''TBD, see store''))) = [0xA5] @ ascii ''NaN''"
  by (simp add: formatPrice_def price_match_def ascii_def is_digit_or_comma_def is_digit_def
      parseFloat_def toFixed2_def)

section \<open>Properties of the key derivation\<close>











section \<open>Properties of the model extractor\<close>

lemma validate_top3:
  assumes "validate rs ps"
  shows "length ps = 3 \<and> distinct (map rank ps) \<and> set (map rank ps) = {1, 2, 3}"
proof -
  from assms have l: "length ps = 3" and s: "set (map rank ps) = {1, 2, 3}"
    by (simp_all add: validate_def)
  have "card (set (map rank ps)) = length (map rank ps)"
    using l s by simp
  then have "distinct (map rank ps)"
    by (rule card_distinct)
  with l s show ?thesis by simp
qed

lemma validate_provenance:
  "validate rs ps \<Longrightarrow> p \<in> set ps \<Longrightarrow> source_link p \<in> link ` set rs"
  by (auto simp: validate_def list_all_iff)

lemma attempt_generation_Accepted:
  "attempt_generation cfg rs prompt = Accepted ps \<Longrightarrow> validate rs ps"
  by (auto simp: attempt_generation_def split: provider_reply.splits if_splits)

lemma extract_recommendations_validated:
  "extract_recommendations kw rs template cfg = Inr ps \<Longrightarrow> validate rs ps"
  by (auto simp: extract_recommendations_def Let_def split: attempt.splits
      dest: attempt_generation_Accepted)

lemma example_extraction:
  "extract_recommendations example_keyword example_results [0x74] example_provider = Inr example_products"
  by (simp add: extract_recommendations_def attempt_generation_def example_provider_def
      example_products_def example_product_def example_results_def build_prompt_def validate_def
      example_keyword_def Let_def)

lemma example_keys:
  "cache_key (\<lambda>k. k) (map example_case_fold) example_keyword = [0x74, 0x76]"
  "cache_key (\<lambda>k. k) (map example_case_fold) example_keyword_padded = [0x74, 0x76]"
  by (simp_all add: cache_key_def normalize_def trim_def is_whitespace_def example_case_fold_def
      example_keyword_def example_keyword_padded_def)

lemma example_keywords_valid:
  "trim example_keyword \<noteq> []" "length example_keyword = 2"
  "trim example_keyword_padded \<noteq> []" "length example_keyword_padded = 4"
  by (simp_all add: trim_def is_whitespace_def example_keyword_def example_keyword_padded_def)

lemma example_fields:
  "sub_keyword example_submission = example_keyword" "sub_time example_submission = 100"
  "sub_keyword example_resubmission = example_keyword_padded" "sub_time example_resubmission = 200"
  "query_ttl example_env = 21600" "max_keyword_length example_env = 100"
  "\<not> cached example_response"
  by (simp_all add: example_submission_def example_resubmission_def example_env_def example_response_def)

lemma example_results_length: "length example_results = 2"
  by (simp add: example_results_def)

lemma example_computation:
  "handle_request (\<lambda>k. k) (map example_case_fold) example_env example_submission Map.empty
     = (Inr example_response, [[0x74, 0x76] \<mapsto> (example_response, 21700)])"
  by (simp add: handle_request_def example_env_def example_submission_def example_keys
      example_keywords_valid cache_get_def cache_put_def example_extraction example_response_def
      example_results_length Let_def)

lemma example_hit:
  "handle_request (\<lambda>k. k) (map example_case_fold) example_env example_resubmission
      [[0x74, 0x76] \<mapsto> (example_response, 21700)]
     = (Inr (example_response\<lparr>cached := True\<rparr>), [[0x74, 0x76] \<mapsto> (example_response, 21700)])"
  by (simp add: handle_request_def example_env_def example_resubmission_def example_keys
      example_keywords_valid cache_get_def Let_def)

section \<open>Properties of the orchestrator and the cache\<close>

lemma handle_request_cases:
  assumes "handle_request h casefold env s c = (answer, c1)"
  shows "(answer = Inl InvalidKeyword \<and> c1 = c)
       \<or> (\<exists>v. cache_get c (cache_key h casefold (sub_keyword s)) (sub_time s) = Some v
              \<and> answer = Inr (v\<lparr>cached := True\<rparr>) \<and> c1 = c)
       \<or> (cache_get c (cache_key h casefold (sub_keyword s)) (sub_time s) = None
              \<and> (\<exists>e. answer = Inl e) \<and> c1 = c)
       \<or> (cache_get c (cache_key h casefold (sub_keyword s)) (sub_time s) = None
              \<and> (\<exists>rs ps. search env (sub_keyword s) = Inr rs
                    \<and> extract_recommendations (sub_keyword s) rs (prompt_template env) (provider env) = Inr ps
                    \<and> answer = Inr \<lparr>products = ps, total_results = length rs,
                                     search_time = sub_elapsed s, cached = False\<rparr>
                    \<and> c1 = cache_put c (cache_key h casefold (sub_keyword s))
                          \<lparr>products = ps, total_results = length rs,
                            search_time = sub_elapsed s, cached = False\<rparr>
                          (sub_time s) (query_ttl env)))"
proof (cases "trim (sub_keyword s) = [] \<or> max_keyword_length env < length (sub_keyword s)")
  case True
  with assms show ?thesis by (simp add: handle_request_def)
next
  case valid: False
  show ?thesis
  proof (cases "cache_get c (cache_key h casefold (sub_keyword s)) (sub_time s)")
    case (Some v)
    with assms valid show ?thesis by (simp add: handle_request_def Let_def)
  next
    case None
    show ?thesis
    proof (cases "search env (sub_keyword s)")
      case (Inl f)
      with assms valid None show ?thesis by (auto simp: handle_request_def Let_def)
    next
      case (Inr rs)
      show ?thesis
      proof (cases "extract_recommendations (sub_keyword s) rs (prompt_template env) (provider env)")
        case (Inl reason)
        with assms valid None Inr show ?thesis by (auto simp: handle_request_def Let_def)
      next
        case ps: (Inr ps)
        with assms valid None Inr show ?thesis by (simp add: handle_request_def Let_def)
      qed
    qed
  qed
qed

text \<open>
  C2: every recommendation the extractor returns for a request has as its source link
  the link of one of the search results supplied to the extractor for that request.
  Output of the provider that breaks this is either repaired by the second generation
  or ends in a failure; it is never returned: the products of a freshly computed
  response of the orchestrator have their source links among the results the search
  client returned for that request. (In the example the first answer names a link that
  no result has, and the extractor returns the repaired answer.)
\<close>

theorem extract_recommendations_provenance:
  "(extract_recommendations kw rs template cfg = Inr ps
      \<longrightarrow> (\<forall>p\<in>set ps. \<exists>r\<in>set rs. source_link p = link r))
   \<and> (handle_request h casefold env s c = (Inr v, c1) \<and> \<not> cached v
      \<longrightarrow> (\<exists>rs'. search env (sub_keyword s) = Inr rs'
             \<and> (\<forall>p\<in>set (products v). \<exists>r\<in>set rs'. source_link p = link r)))"
proof -
  have a: "extract_recommendations kw rs template cfg = Inr ps
      \<Longrightarrow> \<forall>p\<in>set ps. \<exists>r\<in>set rs. source_link p = link r" for kw rs template cfg ps
    using extract_recommendations_validated validate_provenance by blast
  have "\<exists>rs'. search env (sub_keyword s) = Inr rs'
      \<and> (\<forall>p\<in>set (products v). \<exists>r\<in>set rs'. source_link p = link r)"
    if run: "handle_request h casefold env s c = (Inr v, c1)" and fresh: "\<not> cached v"
    using handle_request_cases [OF run] fresh
  proof (elim disjE conjE exE)
    fix rs' ps'
    assume "search env (sub_keyword s) = Inr rs'"
      and "extract_recommendations (sub_keyword s) rs' (prompt_template env) (provider env) = Inr ps'"
      and "Inr v = Inr \<lparr>products = ps', total_results = length rs',
                          search_time = sub_elapsed s, cached = False\<rparr>"
    then show ?thesis
      using a [of "sub_keyword s" rs' "prompt_template env" "provider env" ps'] by auto
  qed simp_all
  with a show ?thesis by blast
qed

theorem extract_recommendations_provenance_witness:
  "extract_recommendations example_keyword example_results [0x74] example_provider
     = Inr example_products
   \<and> list_all (\<lambda>p. source_link p \<in> set (map link example_results)) example_products"
proof -
  have x: "extract_recommendations example_keyword example_results [0x74] example_provider
      = Inr example_products"
    by (rule example_extraction)
  then have "\<forall>p\<in>set example_products. \<exists>r\<in>set example_results. source_link p = link r"
    using extract_recommendations_provenance
      [of example_keyword example_results "[0x74]" example_provider example_products]
    by blast
  then have "list_all (\<lambda>p. source_link p \<in> set (map link example_results)) example_products"
    by (auto simp: list_all_iff)
  with x show ?thesis by simp
qed

lemma cache_get_Some: "cache_get c k now = Some v \<Longrightarrow> \<exists>e. c k = Some (v, e)"
  by (auto simp: cache_get_def split: option.splits if_splits)

lemma cache_top3_put: "cache_top3 c \<Longrightarrow> top3 (products v) \<Longrightarrow> cache_top3 (cache_put c k v now ttl)"
  by (simp add: cache_top3_def cache_put_def)

lemma handle_request_top3_inv:
  assumes inv: "cache_top3 c"
    and run: "handle_request h casefold env s c = (answer, c1)"
  shows "(\<forall>r. answer = Inr r \<longrightarrow> top3 (products r)) \<and> cache_top3 c1"
  using handle_request_cases [OF run]
proof (elim disjE conjE exE)
  assume "answer = Inl InvalidKeyword" "c1 = c"
  with inv show ?thesis by simp
next
  fix v
  assume g: "cache_get c (cache_key h casefold (sub_keyword s)) (sub_time s) = Some v"
    and a: "answer = Inr (v\<lparr>cached := True\<rparr>)" "c1 = c"
  from cache_get_Some [OF g] inv have "top3 (products v)"
    unfolding cache_top3_def by blast
  with a inv show ?thesis by simp
next
  fix e
  assume "answer = Inl e" "c1 = c"
  with inv show ?thesis by simp
next
  fix rs ps
  assume x: "extract_recommendations (sub_keyword s) rs (prompt_template env) (provider env) = Inr ps"
    and a: "answer = Inr \<lparr>products = ps, total_results = length rs,
                          search_time = sub_elapsed s, cached = False\<rparr>"
    and c: "c1 = cache_put c (cache_key h casefold (sub_keyword s))
                   \<lparr>products = ps, total_results = length rs,
                     search_time = sub_elapsed s, cached = False\<rparr>
                   (sub_time s) (query_ttl env)"
  have p: "top3 ps"
    using validate_top3 [OF extract_recommendations_validated [OF x]] by (simp add: top3_def)
  then have "cache_top3 c1"
    unfolding c using inv by (intro cache_top3_put) simp_all
  with a p show ?thesis by simp
qed

lemma serve_top3_inv:
  assumes "cache_top3 c" and "Inr r \<in> set (fst (serve h casefold reqs c))"
  shows "top3 (products r)"
  using assms
proof (induction reqs arbitrary: c)
  case Nil
  then show ?case by simp
next
  case (Cons x reqs)
  obtain env s where x: "x = (env, s)" by (cases x)
  obtain answer c1 where h: "handle_request h casefold env s c = (answer, c1)"
    by (cases "handle_request h casefold env s c")
  obtain answers c2 where r: "serve h casefold reqs c1 = (answers, c2)"
    by (cases "serve h casefold reqs c1")
  note step = handle_request_top3_inv [OF Cons.prems(1) h]
  from Cons.prems(2) x h r have "answer = Inr r \<or> Inr r \<in> set (fst (serve h casefold reqs c1))"
    by auto
  then show ?case
  proof
    assume "answer = Inr r"
    with step show ?thesis by blast
  next
    assume "Inr r \<in> set (fst (serve h casefold reqs c1))"
    with step show ?thesis
      using Cons.IH by blast
  qed
qed

text \<open>
  C1: every successful response to a keyword submission, computed or served from the
  cache, in any sequence of submissions that starts on the empty cache, has exactly
  three products, whose ranks are 1, 2 and 3, each occurring once.
\<close>

theorem serve_three_ranked_products:
  assumes "Inr r \<in> set (fst (serve h casefold reqs Map.empty))"
  shows "length (products r) = 3 \<and> distinct (map rank (products r))
       \<and> set (map rank (products r)) = {1, 2, 3}"
  using serve_top3_inv [of Map.empty r h casefold reqs] assms by (simp add: top3_def cache_top3_def)


theorem serve_three_ranked_products_witness:
  "Inr example_response
     \<in> set (fst (serve (\<lambda>k. k) (map example_case_fold)
          [(example_env, example_submission), (example_env, example_resubmission)] Map.empty))
   \<and> length (products example_response) = 3
   \<and> distinct (map rank (products example_response))
   \<and> set (map rank (products example_response)) = {1, 2, 3}"
  using serve_three_ranked_products
    [of example_response "\<lambda>k. k" "map example_case_fold"
        "[(example_env, example_submission), (example_env, example_resubmission)]"]
  by (simp add: example_computation example_hit)

lemma handle_request_keeps_entry:
  assumes e: "c k = Some (v, e)" and t: "sub_time s < e"
    and run: "handle_request h casefold env s c = (answer, c1)"
  shows "c1 k = Some (v, e)"
  using handle_request_cases [OF run]
proof (elim disjE conjE exE)
  fix rs ps
  assume miss: "cache_get c (cache_key h casefold (sub_keyword s)) (sub_time s) = None"
    and c: "c1 = cache_put c (cache_key h casefold (sub_keyword s))
                   \<lparr>products = ps, total_results = length rs,
                     search_time = sub_elapsed s, cached = False\<rparr>
                   (sub_time s) (query_ttl env)"
  from e t have "cache_get c k (sub_time s) = Some v"
    by (simp add: cache_get_def)
  with miss have "cache_key h casefold (sub_keyword s) \<noteq> k"
    by auto
  with e c show ?thesis
    by (simp add: cache_put_def)
qed (use e in simp_all)


lemma serve_keeps_entry:
  assumes "c k = Some (v, e)" and "list_all (\<lambda>(env, s). sub_time s < e) reqs"
  shows "snd (serve h casefold reqs c) k = Some (v, e)"
  using assms
proof (induction reqs arbitrary: c)
  case Nil
  then show ?case by simp
next
  case (Cons x reqs)
  obtain env s where x: "x = (env, s)" by (cases x)
  obtain answer c1 where h: "handle_request h casefold env s c = (answer, c1)"
    by (cases "handle_request h casefold env s c")
  from Cons.prems x have "sub_time s < e" and "list_all (\<lambda>(env, s). sub_time s < e) reqs"
    by simp_all
  then have "c1 k = Some (v, e)"
    using Cons.prems(1) h handle_request_keeps_entry [of c k v e s h casefold env answer c1] by simp
  then have "snd (serve h casefold reqs c1) k = Some (v, e)"
    using Cons.IH [of c1] \<open>list_all (\<lambda>(env, s). sub_time s < e) reqs\<close> by simp
  with x h show ?case
    by (auto split: prod.splits)
qed


lemma handle_request_fresh:
  assumes run: "handle_request h casefold env s c = (Inr r, c1)" and fresh: "\<not> cached r"
  shows "c1 (cache_key h casefold (sub_keyword s)) = Some (r, sub_time s + query_ttl env)"
  using handle_request_cases [OF run] fresh
  by (auto simp: cache_put_def)


lemma handle_request_hit:
  assumes "c (cache_key h casefold (sub_keyword s)) = Some (v, e)" and "sub_time s < e"
    and "trim (sub_keyword s) \<noteq> []" and "length (sub_keyword s) \<le> max_keyword_length env"
  shows "handle_request h casefold env s c = (Inr (v\<lparr>cached := True\<rparr>), c)"
  using assms by (simp add: handle_request_def cache_get_def Let_def)


text \<open>
  C7: when a computation produced the response \<open>r\<close> for a key, a request for that key
  that arrives before the entry expires, after any requests that also arrived before
  then, is answered with \<open>r\<close> with the cached flag set: the same products, the same
  total and the same search time; it changes nothing in the cache, and the cache still
  holds \<open>r\<close> itself, unchanged, for the key.
\<close>

theorem cached_response_is_verbatim:
  assumes run: "handle_request h casefold env s c = (Inr r, c1)" and fresh: "\<not> cached r"
    and between: "list_all (\<lambda>(e, q). sub_time q < sub_time s + query_ttl env) between"
    and key: "cache_key h casefold (sub_keyword s') = cache_key h casefold (sub_keyword s)"
    and live: "sub_time s' < sub_time s + query_ttl env"
    and valid: "trim (sub_keyword s') \<noteq> []" "length (sub_keyword s') \<le> max_keyword_length env'"
  shows "handle_request h casefold env' s' (snd (serve h casefold between c1))
           = (Inr (r\<lparr>cached := True\<rparr>), snd (serve h casefold between c1))
       \<and> products (r\<lparr>cached := True\<rparr>) = products r
       \<and> total_results (r\<lparr>cached := True\<rparr>) = total_results r
       \<and> search_time (r\<lparr>cached := True\<rparr>) = search_time r
       \<and> cached (r\<lparr>cached := True\<rparr>)
       \<and> snd (serve h casefold between c1) (cache_key h casefold (sub_keyword s))
           = Some (r, sub_time s + query_ttl env)"
proof -
  let ?k = "cache_key h casefold (sub_keyword s)" and ?e = "sub_time s + query_ttl env"
  let ?c2 = "snd (serve h casefold between c1)"
  have f: "c1 ?k = Some (r, ?e)"
    using handle_request_fresh [OF run fresh] .
  have kept: "?c2 ?k = Some (r, ?e)"
    using f between serve_keeps_entry [of c1 ?k r ?e between h casefold] by simp
  then have k2: "?c2 (cache_key h casefold (sub_keyword s')) = Some (r, ?e)"
    by (simp only: key)
  have hit: "handle_request h casefold env' s' ?c2 = (Inr (r\<lparr>cached := True\<rparr>), ?c2)"
    using k2 live valid handle_request_hit [of ?c2 h casefold s' r ?e env'] by simp
  show ?thesis
    using hit kept by simp
qed


theorem cached_response_is_verbatim_witness:
  "handle_request (\<lambda>k. k) (map example_case_fold) example_env example_resubmission
      (snd (serve (\<lambda>k. k) (map example_case_fold) [(example_env, example_resubmission)]
         [[0x74, 0x76] \<mapsto> (example_response, 21700)]))
     = (Inr (example_response\<lparr>cached := True\<rparr>),
        snd (serve (\<lambda>k. k) (map example_case_fold) [(example_env, example_resubmission)]
          [[0x74, 0x76] \<mapsto> (example_response, 21700)]))"
  using cached_response_is_verbatim
    [of "\<lambda>k. k" "map example_case_fold" example_env example_submission Map.empty
        example_response
        "[[0x74, 0x76] \<mapsto> (example_response, 21700)]"
        "[(example_env, example_resubmission)]" example_resubmission example_env]
  by (simp add: example_computation example_keys example_keywords_valid example_fields)

section \<open>Properties of the configuration entries\<close>









end
